theory Spec2Isabelle
  imports Main "HOL-Library.Sublist"
begin

section \<open>The synthesis script \<open>synth.py\<close>\<close>

text \<open>
  The script, after its three imports (which bind \<open>s\<close>, \<open>gcp\<close> and \<open>logging\<close> to
  the external modules), is four statements:
  \<^verbatim>\<open>
  common_templates = gcp.CommonTemplates()
  logging.basicConfig(level=logging.DEBUG)
  templates = common_templates.node_library()
  s.copy(templates / ".kokoro")
  \<close>
  Everything it does is a call into a module it imports. Those modules are a parameter of
  the model (a record of functions over an opaque world state, each of which may raise);
  the model starts once the imports have bound the three names. The script's own state
  is its module namespace. Every call the script makes is appended to a trace together
  with its outcome, so that claims about which calls happen, how often and in which
  order are statements about the trace.
\<close>

subsection \<open>Paths\<close>

text \<open>A \<open>pathlib\<close> path, as the list of its components.\<close>

type_synonym path = "string list"

text \<open>
  \<open>templates / ".kokoro"\<close>: the path's \<open>/\<close> operator, for a right operand that is one
  relative component, appends that component.
\<close>

definition truediv :: "path \<Rightarrow> string \<Rightarrow> path" where
  "truediv p seg = p @ [seg]"

text \<open>The final component of a path (\<open>Path.name\<close>); the empty string when there is none.\<close>

definition path_name :: "path \<Rightarrow> string" where
  "path_name p = (case rev p of [] \<Rightarrow> [] | seg # _ \<Rightarrow> seg)"

subsection \<open>Logging levels\<close>

text \<open>
  A level of Python's \<open>logging\<close> module is an integer; the module names six of them.
  \<open>NOTSET\<close> is the lowest: a root logger at \<open>NOTSET\<close> handles every message.
\<close>

type_synonym level = int


definition DEBUG :: level where
  "DEBUG = 10"






subsection \<open>Values, calls, exceptions\<close>

text \<open>
  The values the script handles: the provider object (an opaque handle \<open>'h\<close>), a path,
  and \<open>None\<close>.
\<close>

datatype 'h val = Provider 'h | PathVal path | NoneVal

text \<open>
  The four calls of the script. A method of the provider is called by its name, as
  Python looks an attribute up by name.
\<close>

datatype 'h call =
    CommonTemplates_call
  | basicConfig_call level
  | method_call 'h string
  | copy_call path

datatype ('h, 'e) outcome = Returned "'h val" | Failed 'e

text \<open>
  What can end the script: an exception \<open>'e\<close> raised inside an imported module, or one
  of the interpreter's own for a name that is not bound or a value of the wrong kind.
\<close>

datatype 'e exn = NameError string | AttributeError string | TypeError | Raised 'e

subsection \<open>The imported modules and the script's state\<close>

record ('h, 'e, 'w) lib =
  gcp_CommonTemplates :: "'w \<Rightarrow> ('e + 'h) \<times> 'w"
  logging_basicConfig :: "level \<Rightarrow> 'w \<Rightarrow> ('e + unit) \<times> 'w"
  provider_method :: "'h \<Rightarrow> string \<Rightarrow> 'w \<Rightarrow> ('e + path) \<times> 'w"
  s_copy :: "path \<Rightarrow> 'w \<Rightarrow> ('e + unit) \<times> 'w"

record ('h, 'e, 'w) state =
  globals :: "string \<rightharpoonup> 'h val"
  world :: 'w
  trace :: "('h call \<times> ('h, 'e) outcome) list"

type_synonym ('h, 'e, 'w) stmt =
  "('h, 'e, 'w) state \<Rightarrow> 'e exn option \<times> ('h, 'e, 'w) state"

subsection \<open>The four statements\<close>

text \<open>\<open>common_templates = gcp.CommonTemplates()\<close>\<close>

definition stmt_common_templates :: "('h, 'e, 'w) lib \<Rightarrow> ('h, 'e, 'w) stmt" where
  "stmt_common_templates L st =
     (case gcp_CommonTemplates L (world st) of
        (Inl e, w') \<Rightarrow>
          (Some (Raised e),
           st\<lparr>world := w', trace := trace st @ [(CommonTemplates_call, Failed e)]\<rparr>)
      | (Inr h, w') \<Rightarrow>
          (None,
           st\<lparr>globals := (globals st)(''common_templates'' \<mapsto> Provider h),
              world := w',
              trace := trace st @ [(CommonTemplates_call, Returned (Provider h))]\<rparr>))"

text \<open>\<open>logging.basicConfig(level=logging.DEBUG)\<close>\<close>

definition stmt_basicConfig :: "('h, 'e, 'w) lib \<Rightarrow> ('h, 'e, 'w) stmt" where
  "stmt_basicConfig L st =
     (case logging_basicConfig L DEBUG (world st) of
        (Inl e, w') \<Rightarrow>
          (Some (Raised e),
           st\<lparr>world := w', trace := trace st @ [(basicConfig_call DEBUG, Failed e)]\<rparr>)
      | (Inr u, w') \<Rightarrow>
          (None,
           st\<lparr>world := w',
              trace := trace st @ [(basicConfig_call DEBUG, Returned NoneVal)]\<rparr>))"

text \<open>\<open>templates = common_templates.node_library()\<close>\<close>

definition stmt_templates :: "('h, 'e, 'w) lib \<Rightarrow> ('h, 'e, 'w) stmt" where
  "stmt_templates L st =
     (case globals st ''common_templates'' of
        None \<Rightarrow> (Some (NameError ''common_templates''), st)
      | Some (Provider h) \<Rightarrow>
          (case provider_method L h ''node_library'' (world st) of
             (Inl e, w') \<Rightarrow>
               (Some (Raised e),
                st\<lparr>world := w',
                   trace := trace st @ [(method_call h ''node_library'', Failed e)]\<rparr>)
           | (Inr t, w') \<Rightarrow>
               (None,
                st\<lparr>globals := (globals st)(''templates'' \<mapsto> PathVal t),
                   world := w',
                   trace := trace st @
                     [(method_call h ''node_library'', Returned (PathVal t))]\<rparr>))
      | Some (PathVal t) \<Rightarrow> (Some (AttributeError ''node_library''), st)
      | Some NoneVal \<Rightarrow> (Some (AttributeError ''node_library''), st))"

text \<open>\<open>s.copy(templates / ".kokoro")\<close>\<close>

definition stmt_copy :: "('h, 'e, 'w) lib \<Rightarrow> ('h, 'e, 'w) stmt" where
  "stmt_copy L st =
     (case globals st ''templates'' of
        None \<Rightarrow> (Some (NameError ''templates''), st)
      | Some (PathVal t) \<Rightarrow>
          (case s_copy L (truediv t ''.kokoro'') (world st) of
             (Inl e, w') \<Rightarrow>
               (Some (Raised e),
                st\<lparr>world := w',
                   trace := trace st @ [(copy_call (truediv t ''.kokoro''), Failed e)]\<rparr>)
           | (Inr u, w') \<Rightarrow>
               (None,
                st\<lparr>world := w',
                   trace := trace st @
                     [(copy_call (truediv t ''.kokoro''), Returned NoneVal)]\<rparr>))
      | Some (Provider h) \<Rightarrow> (Some TypeError, st)
      | Some NoneVal \<Rightarrow> (Some TypeError, st))"

subsection \<open>The module body\<close>

text \<open>
  Statements run in order; an exception that a statement lets out ends the run, since
  the script has no handler.
\<close>

fun exec :: "('h, 'e, 'w) stmt list \<Rightarrow> ('h, 'e, 'w) stmt" where
  "exec [] st = (None, st)"
| "exec (c # cs) st =
     (case c st of
        (Some e, st') \<Rightarrow> (Some e, st')
      | (None, st') \<Rightarrow> exec cs st')"

definition script :: "('h, 'e, 'w) lib \<Rightarrow> ('h, 'e, 'w) stmt list" where
  "script L = [stmt_common_templates L, stmt_basicConfig L, stmt_templates L, stmt_copy L]"

definition run :: "('h, 'e, 'w) lib \<Rightarrow> 'w \<Rightarrow> 'e exn option \<times> ('h, 'e, 'w) state" where
  "run L w = exec (script L) \<lparr>globals = Map.empty, world = w, trace = []\<rparr>"

text \<open>
  The interpreter's exit status: 0 when the module body runs to its end, 1 when an
  exception is not caught.
\<close>

definition exit_status :: "'e exn option \<times> ('h, 'e, 'w) state \<Rightarrow> nat" where
  "exit_status r = (case fst r of None \<Rightarrow> 0 | Some e \<Rightarrow> 1)"

subsection \<open>Reading a run\<close>

definition events :: "'e exn option \<times> ('h, 'e, 'w) state \<Rightarrow> ('h call \<times> ('h, 'e) outcome) list" where
  "events r = trace (snd r)"

definition calls :: "'e exn option \<times> ('h, 'e, 'w) state \<Rightarrow> 'h call list" where
  "calls r = map fst (trace (snd r))"

fun is_CommonTemplates :: "'h call \<Rightarrow> bool" where
  "is_CommonTemplates CommonTemplates_call = True"
| "is_CommonTemplates _ = False"

fun is_basicConfig :: "'h call \<Rightarrow> bool" where
  "is_basicConfig (basicConfig_call l) = True"
| "is_basicConfig _ = False"

fun is_node_library :: "'h call \<Rightarrow> bool" where
  "is_node_library (method_call h m) = (m = ''node_library'')"
| "is_node_library _ = False"

fun is_copy :: "'h call \<Rightarrow> bool" where
  "is_copy (copy_call p) = True"
| "is_copy _ = False"

fun is_Returned :: "('h, 'e) outcome \<Rightarrow> bool" where
  "is_Returned (Returned v) = True"
| "is_Returned (Failed e) = False"

text \<open>The names of the provider methods a run calls, and the arguments of its copy calls.\<close>

fun requested :: "'h call \<Rightarrow> string list" where
  "requested (method_call h m) = [m]"
| "requested _ = []"

definition families_requested :: "'h call list \<Rightarrow> string list" where
  "families_requested cs = concat (map requested cs)"

fun copied :: "'h call \<Rightarrow> path list" where
  "copied (copy_call p) = [p]"
| "copied _ = []"

definition copy_args :: "'h call list \<Rightarrow> path list" where
  "copy_args cs = concat (map copied cs)"

text \<open>The paths that provider methods returned in a run.\<close>

fun rendered :: "'h call \<times> ('h, 'e) outcome \<Rightarrow> path list" where
  "rendered (method_call h m, Returned (PathVal t)) = [t]"
| "rendered _ = []"

definition rendered_roots :: "('h call \<times> ('h, 'e) outcome) list \<Rightarrow> path list" where
  "rendered_roots evs = concat (map rendered evs)"

text \<open>
  \<open>before P Q xs\<close>: every element of \<open>xs\<close> that satisfies \<open>Q\<close> has an element that
  satisfies \<open>P\<close> strictly before it.
\<close>

fun before :: "('a \<Rightarrow> bool) \<Rightarrow> ('a \<Rightarrow> bool) \<Rightarrow> 'a list \<Rightarrow> bool" where
  "before P Q [] = True"
| "before P Q (x # xs) = (if Q x then False else if P x then True else before P Q xs)"

text \<open>An event in which the logging configuration was set: the call returned.\<close>

definition logging_set :: "'h call \<times> ('h, 'e) outcome \<Rightarrow> bool" where
  "logging_set ev = (is_basicConfig (fst ev) \<and> is_Returned (snd ev))"

definition copy_invoked :: "'h call \<times> ('h, 'e) outcome \<Rightarrow> bool" where
  "copy_invoked ev = is_copy (fst ev)"

text \<open>The kind of a call, forgetting its arguments.\<close>

datatype kind = Construct | Configure | Request | Copy

fun kind_of :: "'h call \<Rightarrow> kind" where
  "kind_of CommonTemplates_call = Construct"
| "kind_of (basicConfig_call l) = Configure"
| "kind_of (method_call h m) = Request"
| "kind_of (copy_call p) = Copy"

subsection \<open>The family the specification names\<close>

text \<open>
  The specification calls the requested template family the "generic library" family.
  This is that name, written the way the library names the provider's methods
  (\<open>node_library\<close> for the node family); it is defined here only to be compared with
  the method name that the script calls.
\<close>

definition spec_family_selector :: string where
  "spec_family_selector = ''generic_library''"

subsection \<open>Concrete libraries\<close>

text \<open>
  Libraries to run the script against: handles are numbers, exceptions are their
  messages, and the world counts the calls that completed.
\<close>

definition ok_lib :: "(nat, string, nat) lib" where
  "ok_lib =
     \<lparr>gcp_CommonTemplates = (\<lambda>w. (Inr 7, Suc w)),
      logging_basicConfig = (\<lambda>l w. (Inr (), Suc w)),
      provider_method =
        (\<lambda>h m w. if m = ''node_library'' then (Inr [''tmp'', ''rendered''], Suc w)
                 else (Inl ''no such template family'', w)),
      s_copy = (\<lambda>p w. (Inr (), Suc w))\<rparr>"

definition construct_fails_lib :: "(nat, string, nat) lib" where
  "construct_fails_lib = ok_lib\<lparr>gcp_CommonTemplates := (\<lambda>w. (Inl ''no templates'', w))\<rparr>"

definition render_fails_lib :: "(nat, string, nat) lib" where
  "render_fails_lib = ok_lib\<lparr>provider_method := (\<lambda>h m w. (Inl ''render failed'', w))\<rparr>"

definition copy_fails_lib :: "(nat, string, nat) lib" where
  "copy_fails_lib = ok_lib\<lparr>s_copy := (\<lambda>p w. (Inl ''read-only file system'', w))\<rparr>"

section \<open>Properties\<close>

subsection \<open>What \<open>before\<close> says\<close>

lemma before_iff:
  "before P Q xs \<longleftrightarrow> (\<forall>i<length xs. Q (xs ! i) \<longrightarrow> (\<exists>j<i. P (xs ! j)))"
proof (induction xs)
  case Nil
  show ?case by simp
next
  case (Cons x xs)
  show ?case
  proof (cases "Q x")
    case True
    then have "\<not> (\<forall>i<length (x # xs). Q ((x # xs) ! i) \<longrightarrow> (\<exists>j<i. P ((x # xs) ! j)))"
      by (auto intro: exI [of _ 0])
    with True show ?thesis by simp
  next
    case notQ: False
    show ?thesis
    proof (cases "P x")
      case True
      have "\<forall>i<length (x # xs). Q ((x # xs) ! i) \<longrightarrow> (\<exists>j<i. P ((x # xs) ! j))"
      proof (intro allI impI)
        fix i assume "i < length (x # xs)" and q: "Q ((x # xs) ! i)"
        from q notQ have "0 < i" by (cases i) auto
        with True show "\<exists>j<i. P ((x # xs) ! j)" by (intro exI [of _ 0]) simp
      qed
      with True notQ show ?thesis by simp
    next
      case notP: False
      have "(\<forall>i<length (x # xs). Q ((x # xs) ! i) \<longrightarrow> (\<exists>j<i. P ((x # xs) ! j)))
          \<longleftrightarrow> (\<forall>i<length xs. Q (xs ! i) \<longrightarrow> (\<exists>j<i. P (xs ! j)))" (is "?L \<longleftrightarrow> ?R")
      proof
        assume l: ?L
        show ?R
        proof (intro allI impI)
          fix i assume "i < length xs" and "Q (xs ! i)"
          with l obtain j where j: "j < Suc i" "P ((x # xs) ! j)"
            by (fastforce dest: spec [of _ "Suc i"])
          with notP obtain k where "j = Suc k" by (cases j) auto
          with j show "\<exists>j<i. P (xs ! j)" by auto
        qed
      next
        assume r: ?R
        show ?L
        proof (intro allI impI)
          fix i assume i: "i < length (x # xs)" and q: "Q ((x # xs) ! i)"
          from q notQ obtain k where k: "i = Suc k" by (cases i) auto
          with i q r obtain j where "j < k" "P (xs ! j)" by auto
          with k show "\<exists>j<i. P ((x # xs) ! j)" by (intro exI [of _ "Suc j"]) simp
        qed
      qed
      with notP notQ Cons.IH show ?thesis by simp
    qed
  qed
qed

subsection \<open>The five runs\<close>

text \<open>
  A run is decided by where the first exception is raised. For each of the five
  possibilities, the result, the final namespace, the final world and the trace.
\<close>

lemmas stmt_defs =
  stmt_common_templates_def stmt_basicConfig_def stmt_templates_def stmt_copy_def

lemma run_construct_raises:
  assumes "gcp_CommonTemplates L w = (Inl e, w1)"
  shows "run L w = (Some (Raised e),
           \<lparr>globals = Map.empty, world = w1,
            trace = [(CommonTemplates_call, Failed e)]\<rparr>)"
  using assms by (simp add: run_def script_def stmt_common_templates_def)

lemma run_configure_raises:
  assumes "gcp_CommonTemplates L w = (Inr h, w1)"
    and "logging_basicConfig L DEBUG w1 = (Inl e, w2)"
  shows "run L w = (Some (Raised e),
           \<lparr>globals = [''common_templates'' \<mapsto> Provider h], world = w2,
            trace = [(CommonTemplates_call, Returned (Provider h)),
                     (basicConfig_call DEBUG, Failed e)]\<rparr>)"
  using assms
  by (simp add: run_def script_def stmt_common_templates_def stmt_basicConfig_def)

lemma run_render_raises:
  assumes "gcp_CommonTemplates L w = (Inr h, w1)"
    and "logging_basicConfig L DEBUG w1 = (Inr u, w2)"
    and "provider_method L h ''node_library'' w2 = (Inl e, w3)"
  shows "run L w = (Some (Raised e),
           \<lparr>globals = [''common_templates'' \<mapsto> Provider h], world = w3,
            trace = [(CommonTemplates_call, Returned (Provider h)),
                     (basicConfig_call DEBUG, Returned NoneVal),
                     (method_call h ''node_library'', Failed e)]\<rparr>)"
  using assms
  by (simp add: run_def script_def stmt_common_templates_def stmt_basicConfig_def
        stmt_templates_def)

lemma run_copy_raises:
  assumes "gcp_CommonTemplates L w = (Inr h, w1)"
    and "logging_basicConfig L DEBUG w1 = (Inr u, w2)"
    and "provider_method L h ''node_library'' w2 = (Inr t, w3)"
    and "s_copy L (truediv t ''.kokoro'') w3 = (Inl e, w4)"
  shows "run L w = (Some (Raised e),
           \<lparr>globals = [''common_templates'' \<mapsto> Provider h, ''templates'' \<mapsto> PathVal t],
            world = w4,
            trace = [(CommonTemplates_call, Returned (Provider h)),
                     (basicConfig_call DEBUG, Returned NoneVal),
                     (method_call h ''node_library'', Returned (PathVal t)),
                     (copy_call (truediv t ''.kokoro''), Failed e)]\<rparr>)"
  using assms by (simp add: run_def script_def stmt_defs)

lemma run_completes:
  assumes "gcp_CommonTemplates L w = (Inr h, w1)"
    and "logging_basicConfig L DEBUG w1 = (Inr u, w2)"
    and "provider_method L h ''node_library'' w2 = (Inr t, w3)"
    and "s_copy L (truediv t ''.kokoro'') w3 = (Inr u', w4)"
  shows "run L w = (None,
           \<lparr>globals = [''common_templates'' \<mapsto> Provider h, ''templates'' \<mapsto> PathVal t],
            world = w4,
            trace = [(CommonTemplates_call, Returned (Provider h)),
                     (basicConfig_call DEBUG, Returned NoneVal),
                     (method_call h ''node_library'', Returned (PathVal t)),
                     (copy_call (truediv t ''.kokoro''), Returned NoneVal)]\<rparr>)"
  using assms by (simp add: run_def script_def stmt_defs)

text \<open>Every run is one of the five.\<close>

lemma run_shape:
  obtains
    (construct_fails) e w1 where
      "run L w = (Some (Raised e),
         \<lparr>globals = Map.empty, world = w1, trace = [(CommonTemplates_call, Failed e)]\<rparr>)"
  | (configure_fails) h e w2 where
      "run L w = (Some (Raised e),
         \<lparr>globals = [''common_templates'' \<mapsto> Provider h], world = w2,
          trace = [(CommonTemplates_call, Returned (Provider h)),
                   (basicConfig_call DEBUG, Failed e)]\<rparr>)"
  | (render_fails) h e w3 where
      "run L w = (Some (Raised e),
         \<lparr>globals = [''common_templates'' \<mapsto> Provider h], world = w3,
          trace = [(CommonTemplates_call, Returned (Provider h)),
                   (basicConfig_call DEBUG, Returned NoneVal),
                   (method_call h ''node_library'', Failed e)]\<rparr>)"
  | (copy_fails) h t e w4 where
      "run L w = (Some (Raised e),
         \<lparr>globals = [''common_templates'' \<mapsto> Provider h, ''templates'' \<mapsto> PathVal t],
          world = w4,
          trace = [(CommonTemplates_call, Returned (Provider h)),
                   (basicConfig_call DEBUG, Returned NoneVal),
                   (method_call h ''node_library'', Returned (PathVal t)),
                   (copy_call (truediv t ''.kokoro''), Failed e)]\<rparr>)"
  | (completes) h t w4 where
      "run L w = (None,
         \<lparr>globals = [''common_templates'' \<mapsto> Provider h, ''templates'' \<mapsto> PathVal t],
          world = w4,
          trace = [(CommonTemplates_call, Returned (Provider h)),
                   (basicConfig_call DEBUG, Returned NoneVal),
                   (method_call h ''node_library'', Returned (PathVal t)),
                   (copy_call (truediv t ''.kokoro''), Returned NoneVal)]\<rparr>)"
proof -
  obtain r1 w1 where c1: "gcp_CommonTemplates L w = (r1, w1)" by force
  show thesis
  proof (cases r1)
    case (Inl e)
    with c1 show thesis by (intro construct_fails run_construct_raises) simp
  next
    case h: (Inr h)
    obtain r2 w2 where c2: "logging_basicConfig L DEBUG w1 = (r2, w2)" by force
    show thesis
    proof (cases r2)
      case (Inl e)
      with c1 h c2 show thesis by (intro configure_fails run_configure_raises) simp_all
    next
      case u: (Inr u)
      obtain r3 w3 where c3: "provider_method L h ''node_library'' w2 = (r3, w3)" by force
      show thesis
      proof (cases r3)
        case (Inl e)
        with c1 h c2 u c3 show thesis by (intro render_fails run_render_raises) simp_all
      next
        case t: (Inr t)
        obtain r4 w4 where c4: "s_copy L (truediv t ''.kokoro'') w3 = (r4, w4)" by force
        show thesis
        proof (cases r4)
          case (Inl e)
          with c1 h c2 u c3 t c4 show thesis by (intro copy_fails run_copy_raises) simp_all
        next
          case (Inr u')
          with c1 h c2 u c3 t c4 show thesis by (intro completes run_completes) simp_all
        qed
      qed
    qed
  qed
qed

subsection \<open>The concrete runs\<close>

lemma run_ok_lib:
  "run ok_lib 0 = (None,
     \<lparr>globals = [''common_templates'' \<mapsto> Provider 7,
                 ''templates'' \<mapsto> PathVal [''tmp'', ''rendered'']],
      world = 4,
      trace = [(CommonTemplates_call, Returned (Provider 7)),
               (basicConfig_call DEBUG, Returned NoneVal),
               (method_call 7 ''node_library'', Returned (PathVal [''tmp'', ''rendered''])),
               (copy_call [''tmp'', ''rendered'', ''.kokoro''], Returned NoneVal)]\<rparr>)"
  by (simp add: run_def script_def stmt_defs ok_lib_def truediv_def)

lemma run_construct_fails_lib:
  "run construct_fails_lib 0 = (Some (Raised ''no templates''),
     \<lparr>globals = Map.empty, world = 0,
      trace = [(CommonTemplates_call, Failed ''no templates'')]\<rparr>)"
  by (simp add: run_def script_def stmt_defs construct_fails_lib_def ok_lib_def)

lemma run_render_fails_lib:
  "run render_fails_lib 0 = (Some (Raised ''render failed''),
     \<lparr>globals = [''common_templates'' \<mapsto> Provider 7], world = 2,
      trace = [(CommonTemplates_call, Returned (Provider 7)),
               (basicConfig_call DEBUG, Returned NoneVal),
               (method_call 7 ''node_library'', Failed ''render failed'')]\<rparr>)"
  by (simp add: run_def script_def stmt_defs render_fails_lib_def ok_lib_def)

lemma run_copy_fails_lib:
  "run copy_fails_lib 0 = (Some (Raised ''read-only file system''),
     \<lparr>globals = [''common_templates'' \<mapsto> Provider 7,
                 ''templates'' \<mapsto> PathVal [''tmp'', ''rendered'']],
      world = 3,
      trace = [(CommonTemplates_call, Returned (Provider 7)),
               (basicConfig_call DEBUG, Returned NoneVal),
               (method_call 7 ''node_library'', Returned (PathVal [''tmp'', ''rendered''])),
               (copy_call [''tmp'', ''rendered'', ''.kokoro''],
                Failed ''read-only file system'')]\<rparr>)"
  by (simp add: run_def script_def stmt_defs copy_fails_lib_def ok_lib_def truediv_def)

lemma path_name_truediv: "path_name (truediv t seg) = seg"
  by (simp add: path_name_def truediv_def)

subsection \<open>Order of the calls\<close>

text \<open>
  C1, as the code has it. The claim puts the logging configuration before the
  construction of the provider; the script constructs the provider first. In every run
  the call of \<open>gcp.CommonTemplates\<close> comes before the call of \<open>logging.basicConfig\<close>,
  and the call of \<open>logging.basicConfig\<close> comes before the call of the provider's
  \<open>node_library\<close>, which asks for the templates.
\<close>

theorem logging_after_construction_before_request:
  "before is_CommonTemplates is_basicConfig (calls (run L w)) \<and>
   before is_basicConfig is_node_library (calls (run L w))"
  by (rule run_shape [of L w]) (simp_all add: calls_def)

theorem logging_after_construction_before_request_witness:
  "calls (run ok_lib 0) =
     [CommonTemplates_call, basicConfig_call DEBUG, method_call 7 ''node_library'',
      copy_call [''tmp'', ''rendered'', ''.kokoro'']] \<and>
   before is_CommonTemplates is_basicConfig (calls (run ok_lib 0)) \<and>
   before is_basicConfig is_node_library (calls (run ok_lib 0))"
  using logging_after_construction_before_request [of ok_lib 0]
  by (simp add: run_ok_lib calls_def)

text \<open>
  C1 as stated fails: in the run against \<open>ok_lib\<close> the provider is constructed with no
  logging configuration before it.
\<close>

theorem logging_before_construction_counterexample:
  "\<not> before is_basicConfig is_CommonTemplates (calls (run ok_lib 0))"
  by (simp add: run_ok_lib calls_def)

text \<open>
  C4: in every run, a call of the copy operation has before it a call of
  \<open>logging.basicConfig\<close> that returned.
\<close>

theorem logging_set_before_copy:
  "before logging_set copy_invoked (events (run L w))"
  by (rule run_shape [of L w]) (simp_all add: events_def logging_set_def copy_invoked_def)

theorem logging_set_before_copy_witness:
  "list_ex copy_invoked (events (run ok_lib 0)) \<and>
   before logging_set copy_invoked (events (run ok_lib 0))"
  using logging_set_before_copy [of ok_lib 0]
  by (simp add: run_ok_lib events_def copy_invoked_def)

subsection \<open>Which calls, and how often\<close>

text \<open>
  C2, as the code has it. Every run calls \<open>gcp.CommonTemplates\<close> exactly once. The
  family is requested by calling the provider's method \<open>node_library\<close>, and no other
  method: once in a run in which the logging configuration returned (so the
  construction returned too), and not at all otherwise.
\<close>

theorem one_construction_node_library_requested:
  "length (filter is_CommonTemplates (calls (run L w))) = 1 \<and>
   families_requested (calls (run L w)) =
     (if list_ex logging_set (events (run L w)) then [''node_library''] else [])"
  by (rule run_shape [of L w])
     (simp_all add: calls_def events_def families_requested_def logging_set_def)

theorem one_construction_node_library_requested_witness:
  "list_ex logging_set (events (run ok_lib 0)) \<and>
   length (filter is_CommonTemplates (calls (run ok_lib 0))) = 1 \<and>
   families_requested (calls (run ok_lib 0)) = [''node_library'']"
  using one_construction_node_library_requested [of ok_lib 0]
  by (simp add: run_ok_lib events_def logging_set_def)

text \<open>
  C2 as stated fails: the run against \<open>ok_lib\<close> requests \<open>node_library\<close>, not the
  family the specification names.
\<close>

theorem generic_library_requested_counterexample:
  "\<not> (length (filter is_CommonTemplates (calls (run ok_lib 0))) = 1 \<and>
      families_requested (calls (run ok_lib 0)) = [spec_family_selector])"
  by (simp add: run_ok_lib calls_def families_requested_def spec_family_selector_def)

text \<open>
  C3, as the code has it. The copy operation is called once for the path that
  \<open>node_library\<close> returned, with that path joined with \<open>.kokoro\<close>, so the final
  component of the argument is \<open>.kokoro\<close>; \<open>node_library\<close> returns at most once in a
  run, and where it did not return (an earlier call or \<open>node_library\<close> itself raised)
  the copy operation is not called.
\<close>

theorem copy_once_per_rendered_root:
  "copy_args (calls (run L w)) =
     map (\<lambda>t. truediv t ''.kokoro'') (rendered_roots (events (run L w))) \<and>
   length (rendered_roots (events (run L w))) \<le> 1 \<and>
   list_all (\<lambda>p. path_name p = ''.kokoro'') (copy_args (calls (run L w)))"
  by (rule run_shape [of L w])
     (simp_all add: calls_def events_def copy_args_def rendered_roots_def path_name_truediv)

theorem copy_once_per_rendered_root_witness:
  "rendered_roots (events (run ok_lib 0)) = [[''tmp'', ''rendered'']] \<and>
   copy_args (calls (run ok_lib 0)) = [[''tmp'', ''rendered'', ''.kokoro'']] \<and>
   list_all (\<lambda>p. path_name p = ''.kokoro'') (copy_args (calls (run ok_lib 0)))"
  using copy_once_per_rendered_root [of ok_lib 0]
  by (simp add: run_ok_lib events_def calls_def rendered_roots_def copy_args_def truediv_def)

text \<open>
  C3 as stated fails: in the run against \<open>render_fails_lib\<close>, where \<open>node_library\<close>
  raises, the copy operation is not called once but never.
\<close>

theorem copy_exactly_once_counterexample:
  "length (copy_args (calls (run render_fails_lib 0))) \<noteq> 1"
  by (simp add: run_render_fails_lib calls_def copy_args_def)

subsection \<open>Failures\<close>

text \<open>
  C5: whenever a call into an imported module raises \<open>e\<close> (the construction of the
  provider, the logging configuration, \<open>node_library\<close> or the copy operation), the run
  ends with \<open>e\<close> itself uncaught, and the exit status is not zero. The lemmas
  \<open>run_construct_raises\<close> to \<open>run_copy_raises\<close> say the same from the library's side.
\<close>

theorem failure_propagates:
  assumes raised: "(c, Failed e) \<in> set (events (run L w))"
  shows "fst (run L w) = Some (Raised e) \<and> exit_status (run L w) \<noteq> 0"
proof (cases rule: run_shape [of L w])
  case (construct_fails e' w1)
  with raised have "e' = e" by (simp add: events_def)
  with construct_fails show ?thesis by (simp add: exit_status_def)
next
  case (configure_fails h e' w2)
  with raised have "e' = e" by (simp add: events_def)
  with configure_fails show ?thesis by (simp add: exit_status_def)
next
  case (render_fails h e' w3)
  with raised have "e' = e" by (simp add: events_def)
  with render_fails show ?thesis by (simp add: exit_status_def)
next
  case (copy_fails h t e' w4)
  with raised have "e' = e" by (simp add: events_def)
  with copy_fails show ?thesis by (simp add: exit_status_def)
next
  case (completes h t w4)
  with raised have False by (simp add: events_def)
  then show ?thesis ..
qed

theorem failure_propagates_witness:
  "(CommonTemplates_call, Failed ''no templates'')
     \<in> set (events (run construct_fails_lib 0)) \<and>
   fst (run construct_fails_lib 0) = Some (Raised ''no templates'') \<and>
   exit_status (run construct_fails_lib 0) \<noteq> 0 \<and>
   (method_call 7 ''node_library'', Failed ''render failed'')
     \<in> set (events (run render_fails_lib 0)) \<and>
   fst (run render_fails_lib 0) = Some (Raised ''render failed'') \<and>
   exit_status (run render_fails_lib 0) \<noteq> 0 \<and>
   (copy_call [''tmp'', ''rendered'', ''.kokoro''], Failed ''read-only file system'')
     \<in> set (events (run copy_fails_lib 0)) \<and>
   fst (run copy_fails_lib 0) = Some (Raised ''read-only file system'') \<and>
   exit_status (run copy_fails_lib 0) \<noteq> 0"
proof -
  have a: "(CommonTemplates_call, Failed ''no templates'')
      \<in> set (events (run construct_fails_lib 0))"
    by (simp add: run_construct_fails_lib events_def)
  have b: "(method_call 7 ''node_library'', Failed ''render failed'')
      \<in> set (events (run render_fails_lib 0))"
    by (simp add: run_render_fails_lib events_def)
  have c: "(copy_call [''tmp'', ''rendered'', ''.kokoro''], Failed ''read-only file system'')
      \<in> set (events (run copy_fails_lib 0))"
    by (simp add: run_copy_fails_lib events_def)
  from a b c failure_propagates [OF a] failure_propagates [OF b] failure_propagates [OF c]
  show ?thesis by simp
qed

text \<open>
  C10: in a run in which a call other than the copy operation raises (the construction
  of the provider, the logging configuration or \<open>node_library\<close>), the copy operation is
  never called.
\<close>

theorem no_copy_after_earlier_failure:
  assumes "(c, Failed e) \<in> set (events (run L w))" and "\<not> is_copy c"
  shows "copy_args (calls (run L w)) = []"
  by (rule run_shape [of L w]) (insert assms, auto simp: events_def calls_def copy_args_def)

theorem no_copy_after_earlier_failure_witness:
  "(CommonTemplates_call, Failed ''no templates'')
     \<in> set (events (run construct_fails_lib 0)) \<and>
   \<not> is_copy (CommonTemplates_call :: nat call) \<and>
   copy_args (calls (run construct_fails_lib 0)) = [] \<and>
   (method_call 7 ''node_library'', Failed ''render failed'')
     \<in> set (events (run render_fails_lib 0)) \<and>
   \<not> is_copy (method_call (7::nat) ''node_library'') \<and>
   copy_args (calls (run render_fails_lib 0)) = []"
proof -
  have a: "(CommonTemplates_call, Failed ''no templates'')
      \<in> set (events (run construct_fails_lib 0))"
    by (simp add: run_construct_fails_lib events_def)
  have a': "\<not> is_copy (CommonTemplates_call :: nat call)" by simp
  have b: "(method_call 7 ''node_library'', Failed ''render failed'')
      \<in> set (events (run render_fails_lib 0))"
    by (simp add: run_render_fails_lib events_def)
  have b': "\<not> is_copy (method_call (7::nat) ''node_library'')" by simp
  from a a' b b' no_copy_after_earlier_failure [OF a a'] no_copy_after_earlier_failure [OF b b']
  show ?thesis by simp
qed

subsection \<open>The logging level\<close>




subsection \<open>Control flow\<close>

text \<open>
  C7, as the code has it. After the imports the module body is four statements, not
  three. They run in a straight line: the calls of every run are an initial part of
  construct, configure, request, copy, in this order and each at most once; the run
  completes exactly when all four calls were made and returned; and every call before
  the last one returned, so nothing is called after a call that raised.
\<close>

theorem four_statements_straight_line:
  "length (script L) = 4 \<and>
   prefix (map kind_of (calls (run L w))) [Construct, Configure, Request, Copy] \<and>
   (fst (run L w) = None) =
     (list_all (\<lambda>ev. is_Returned (snd ev)) (events (run L w)) \<and>
      length (events (run L w)) = 4) \<and>
   list_all (\<lambda>ev. is_Returned (snd ev)) (butlast (events (run L w)))"
  by (rule run_shape [of L w]) (simp_all add: script_def calls_def events_def)

theorem four_statements_straight_line_witness:
  "length (script ok_lib) = 4 \<and>
   map kind_of (calls (run ok_lib 0)) = [Construct, Configure, Request, Copy] \<and>
   fst (run ok_lib 0) = None"
  using four_statements_straight_line [of ok_lib 0]
  by (simp add: run_ok_lib calls_def)

text \<open>
  C7 as stated fails: the body has four statements and a completed run makes four
  calls.
\<close>

theorem three_statements_counterexample:
  "length (script ok_lib) \<noteq> 3 \<and> length (calls (run ok_lib 0)) \<noteq> 3"
  by (simp add: script_def run_ok_lib calls_def)

subsection \<open>What the script holds when it ends\<close>

text \<open>
  C8, as the code has it. When the copy operation has returned, the run is over: the
  copy is the last of its four calls. The provider and the path that \<open>node_library\<close>
  returned are then still bound, to the module's names \<open>common_templates\<close> and
  \<open>templates\<close>, and the namespace holds nothing else.
\<close>

theorem names_stay_bound_after_copy:
  assumes "fst (run L w) = None"
  shows "\<exists>h t. globals (snd (run L w)) =
            [''common_templates'' \<mapsto> Provider h, ''templates'' \<mapsto> PathVal t] \<and>
          events (run L w) =
            [(CommonTemplates_call, Returned (Provider h)),
             (basicConfig_call DEBUG, Returned NoneVal),
             (method_call h ''node_library'', Returned (PathVal t)),
             (copy_call (truediv t ''.kokoro''), Returned NoneVal)]"
proof (cases rule: run_shape [of L w])
  case (completes h t w4)
  then show ?thesis by (simp add: events_def)
qed (use assms in simp_all)

theorem names_stay_bound_after_copy_witness:
  "fst (run ok_lib 0) = None \<and>
   (\<exists>h t. globals (snd (run ok_lib 0)) =
            [''common_templates'' \<mapsto> Provider h, ''templates'' \<mapsto> PathVal t] \<and>
          events (run ok_lib 0) =
            [(CommonTemplates_call, Returned (Provider h)),
             (basicConfig_call DEBUG, Returned NoneVal),
             (method_call h ''node_library'', Returned (PathVal t)),
             (copy_call (truediv t ''.kokoro''), Returned NoneVal)])"
proof -
  have a: "fst (run ok_lib 0) = None" by (simp add: run_ok_lib)
  from a names_stay_bound_after_copy [OF a] show ?thesis by blast
qed

text \<open>
  C8 as stated fails: after the run against \<open>ok_lib\<close>, whose copy returned, both names
  are bound.
\<close>

theorem no_state_after_copy_counterexample:
  "fst (run ok_lib 0) = None \<and>
   globals (snd (run ok_lib 0)) ''common_templates'' = Some (Provider 7) \<and>
   globals (snd (run ok_lib 0)) ''templates'' = Some (PathVal [''tmp'', ''rendered'']) \<and>
   globals (snd (run ok_lib 0)) \<noteq> Map.empty"
proof -
  have "globals (snd (run ok_lib 0)) ''templates'' \<noteq> Map.empty ''templates''"
    by (simp add: run_ok_lib)
  then have "globals (snd (run ok_lib 0)) \<noteq> Map.empty" by metis
  then show ?thesis by (simp add: run_ok_lib)
qed

end
